theory Spec2Isabelle
  imports Complex_Main
begin

section \<open>The evaluator of the cache\_ext file-search benchmark\<close>

text \<open>
  A shallow embedding of \<^verbatim>\<open>openevolve_eval.py\<close>. The module stages a candidate BPF
  policy, rebuilds the policies, runs the file-search benchmark and averages the runtimes
  that the benchmark wrote to a JSON results file.

  Everything outside the module (file system, subprocesses, clock) is read from a record
  of observations, one field for each place where the code asks the outside world, and
  every action the code performs on it (copy, build, directory creation, benchmark run)
  is appended to a trace that the functions return.
\<close>

subsection \<open>Python floats\<close>

text \<open>
  A Python float is an IEEE-754 binary64 value. Finite values are kept as the rational
  number they denote, next to the two infinities and NaN. The two zeros are identified,
  as Python's \<^verbatim>\<open>==\<close> identifies them.
\<close>

datatype pyfloat = Fin rat | PInf | NInf | NaN

datatype pyexc =
    AttributeError | TypeError | ValueError | OverflowError | StatisticsError
  | OSError | UnicodeDecodeError | RecursionError | RuntimeError

function floor_log2 :: "int \<Rightarrow> int" where
  "floor_log2 n = (if n < 2 then 0 else 1 + floor_log2 (n div 2))"
  by pat_completeness auto
termination
  by (relation "measure nat") auto

declare floor_log2.simps [simp del]

definition ceil_log2 :: "int \<Rightarrow> int" where
  "ceil_log2 n = (if n \<le> 1 then 0 else 1 + floor_log2 (n - 1))"

definition pow2 :: "int \<Rightarrow> rat" where
  "pow2 e = (if 0 \<le> e then 2 ^ nat e else 1 / 2 ^ nat (- e))"

definition pow10 :: "int \<Rightarrow> rat" where
  "pow10 e = (if 0 \<le> e then 10 ^ nat e else 1 / 10 ^ nat (- e))"

definition ilog2 :: "rat \<Rightarrow> int" where
  \<comment> \<open>for \<open>0 < a\<close>: the exponent \<open>e\<close> with \<open>2 ^ e \<le> a < 2 ^ (e + 1)\<close>\<close>
  "ilog2 a = (if 1 \<le> a then floor_log2 \<lfloor>a\<rfloor> else - ceil_log2 \<lceil>1 / a\<rceil>)"

definition round_half_even :: "rat \<Rightarrow> int" where
  "round_half_even x =
     (let f = \<lfloor>x\<rfloor>; d = x - of_int f
      in if d < 1 / 2 then f else if 1 / 2 < d then f + 1 else if even f then f else f + 1)"

definition round_double :: "rat \<Rightarrow> pyfloat" where
  \<comment> \<open>round to nearest, ties to even, 53 significant bits, least exponent -1022;
      a result of \<open>2 ^ 1024\<close> or more is an infinity\<close>
  "round_double q =
     (if q = 0 then Fin 0
      else let a = \<bar>q\<bar>;
               e = max (ilog2 a) (- 1022);
               ulp = pow2 (e - 52);
               v = of_int (round_half_even (a / ulp)) * ulp
           in if pow2 1024 \<le> v then (if 0 < q then PInf else NInf)
              else Fin (if 0 < q then v else - v))"

fun fneg :: "pyfloat \<Rightarrow> pyfloat" where
  "fneg (Fin r) = Fin (- r)"
| "fneg PInf = NInf"
| "fneg NInf = PInf"
| "fneg NaN = NaN"

text \<open>\<^verbatim>\<open>float(n)\<close> for an int: correctly rounded, OverflowError when out of range.\<close>

definition float_of_int :: "int \<Rightarrow> pyexc + pyfloat" where
  "float_of_int n = (case round_double (of_int n) of Fin r \<Rightarrow> Inr (Fin r) | _ \<Rightarrow> Inl OverflowError)"

subsection \<open>Strings: \<^verbatim>\<open>str.strip\<close> and \<^verbatim>\<open>float(str)\<close>\<close>

text \<open>
  Strings hold ASCII characters. The white space of \<^verbatim>\<open>str.strip\<close> is what
  \<^verbatim>\<open>str.isspace\<close> accepts below code point 128: tab, line feed, vertical tab, form
  feed, carriage return, the four separators \<^verbatim>\<open>0x1c\<close> to \<^verbatim>\<open>0x1f\<close>, and the
  space.
\<close>

definition is_space :: "char \<Rightarrow> bool" where
  "is_space c = (c \<in> set [CHR 0x09, CHR 0x0A, CHR 0x0B, CHR 0x0C, CHR 0x0D,
                            CHR 0x1C, CHR 0x1D, CHR 0x1E, CHR 0x1F, CHR 0x20])"

definition strip :: "string \<Rightarrow> string" where
  "strip s = rev (dropWhile is_space (rev (dropWhile is_space s)))"

text \<open>
  \<^verbatim>\<open>float(str)\<close> strips less: only tab, line feed, vertical tab, form feed, carriage
  return and the space. A string that begins or ends with one of \<^verbatim>\<open>0x1c\<close> to
  \<^verbatim>\<open>0x1f\<close> keeps it and is not a number.
\<close>

definition is_float_space :: "char \<Rightarrow> bool" where
  "is_float_space c = (c \<in> set [CHR 0x09, CHR 0x0A, CHR 0x0B, CHR 0x0C, CHR 0x0D, CHR 0x20])"

definition float_strip :: "string \<Rightarrow> string" where
  "float_strip s = rev (dropWhile is_float_space (rev (dropWhile is_float_space s)))"

definition digit_of :: "char \<Rightarrow> int option" where
  "digit_of = map_of [(CHR ''0'', 0), (CHR ''1'', 1), (CHR ''2'', 2), (CHR ''3'', 3),
     (CHR ''4'', 4), (CHR ''5'', 5), (CHR ''6'', 6), (CHR ''7'', 7), (CHR ''8'', 8),
     (CHR ''9'', 9)]"

definition lower :: "char \<Rightarrow> char" where
  "lower c = (case map_of (zip ''ABCDEFGHIJKLMNOPQRSTUVWXYZ'' ''abcdefghijklmnopqrstuvwxyz'') c of
                None \<Rightarrow> c | Some l \<Rightarrow> l)"

text \<open>
  The grammar of \<^verbatim>\<open>float(str)\<close>:
  \<^verbatim>\<open>digitpart ::= digit (["_"] digit)*\<close>,
  \<^verbatim>\<open>number ::= [digitpart] "." digitpart | digitpart ["."]\<close>,
  \<^verbatim>\<open>exponent ::= ("e" | "E") ["+" | "-"] digitpart\<close>,
  \<^verbatim>\<open>floatvalue ::= ["+" | "-"] (number [exponent] | "inf" | "infinity" | "nan")\<close>,
  the three words in any case, the white space of \<open>float_strip\<close> removed at both ends.
\<close>

fun digit_run :: "string \<Rightarrow> int list \<times> string" where
  "digit_run [] = ([], [])"
| "digit_run [c] = (case digit_of c of Some d \<Rightarrow> ([d], []) | None \<Rightarrow> ([], [c]))"
| "digit_run (c # c' # cs) =
     (case digit_of c of
        Some d \<Rightarrow> (case digit_run (c' # cs) of (ds, r) \<Rightarrow> (d # ds, r))
      | None \<Rightarrow>
          (if c = CHR ''_'' then
             (case digit_of c' of
                Some d' \<Rightarrow> (case digit_run cs of (ds, r) \<Rightarrow> (d' # ds, r))
              | None \<Rightarrow> ([], c # c' # cs))
           else ([], c # c' # cs)))"

definition digitpart :: "string \<Rightarrow> (int list \<times> string) option" where
  "digitpart s =
     (case s of
        [] \<Rightarrow> None
      | c # cs \<Rightarrow>
          (case digit_of c of
             None \<Rightarrow> None
           | Some d \<Rightarrow> (case digit_run cs of (ds, r) \<Rightarrow> Some (d # ds, r))))"

definition starts_with :: "string \<Rightarrow> char set \<Rightarrow> bool" where
  "starts_with s C = (case s of [] \<Rightarrow> False | c # _ \<Rightarrow> c \<in> C)"

definition number :: "string \<Rightarrow> (int list \<times> int list \<times> string) option" where
  "number s =
     (case digitpart s of
        Some (ip, r) \<Rightarrow>
          (if starts_with r {CHR ''.''} then
             (case digitpart (tl r) of
                Some (fp, r') \<Rightarrow> Some (ip, fp, r')
              | None \<Rightarrow> Some (ip, [], tl r))
           else Some (ip, [], r))
      | None \<Rightarrow>
          (if starts_with s {CHR ''.''} then
             (case digitpart (tl s) of
                Some (fp, r') \<Rightarrow> Some ([], fp, r')
              | None \<Rightarrow> None)
           else None))"

definition digits_value :: "int list \<Rightarrow> int" where
  "digits_value ds = foldl (\<lambda>acc d. 10 * acc + d) 0 ds"

definition exponent :: "string \<Rightarrow> int option" where
  \<comment> \<open>what is left after the number: nothing, or an exponent up to the end\<close>
  "exponent r =
     (if r = [] then Some 0
      else if starts_with r {CHR ''e'', CHR ''E''} then
        (let r1 = tl r;
             neg = starts_with r1 {CHR ''-''};
             r2 = (if starts_with r1 {CHR ''-'', CHR ''+''} then tl r1 else r1)
         in case digitpart r2 of
              Some (ds, rest) \<Rightarrow>
                (if rest = [] then Some ((if neg then - 1 else 1) * digits_value ds) else None)
            | None \<Rightarrow> None)
      else None)"

definition float_of_string :: "string \<Rightarrow> pyfloat option" where
  \<comment> \<open>\<open>None\<close> is ValueError\<close>
  "float_of_string s =
     (let t = float_strip s;
          neg = starts_with t {CHR ''-''};
          body = (if starts_with t {CHR ''-'', CHR ''+''} then tl t else t);
          word = map lower body
      in if word = ''inf'' \<or> word = ''infinity'' then Some (if neg then NInf else PInf)
         else if word = ''nan'' then Some NaN
         else (case number body of
                 None \<Rightarrow> None
               | Some (ip, fp, r) \<Rightarrow>
                   (case exponent r of
                      None \<Rightarrow> None
                    | Some ex \<Rightarrow>
                        Some (round_double
                          ((if neg then - 1 else 1) * of_int (digits_value (ip @ fp))
                             * pow10 (ex - int (length fp)))))))"

subsection \<open>\<^verbatim>\<open>statistics.mean\<close> on a list of floats\<close>

text \<open>
  The mean is computed exactly over the rationals and rounded once. When the data holds
  an infinity or a NaN, the total is the float sum of the non-finite values alone, and
  dividing it by the positive count leaves it as it is.
\<close>

fun special_sum :: "pyfloat list \<Rightarrow> pyfloat option \<Rightarrow> pyfloat option" where
  "special_sum [] acc = acc"
| "special_sum (Fin r # xs) acc = special_sum xs acc"
| "special_sum (x # xs) None = special_sum xs (Some x)"
| "special_sum (x # xs) (Some a) = special_sum xs (Some (if a = x then a else NaN))"

fun finite_part :: "pyfloat \<Rightarrow> rat" where
  "finite_part (Fin r) = r"
| "finite_part _ = 0"

definition mean :: "pyfloat list \<Rightarrow> pyexc + pyfloat" where
  "mean xs =
     (if xs = [] then Inl StatisticsError
      else case special_sum xs None of
             Some tot \<Rightarrow> Inr tot
           | None \<Rightarrow> Inr (round_double (sum_list (map finite_part xs) / of_nat (length xs))))"

subsection \<open>JSON values and the results file\<close>

text \<open>
  What \<^verbatim>\<open>json.load\<close> returns. A dict is a list of key-value pairs, read by key; the
  list stands for the parsed dict, in which a key occurs once.
\<close>

datatype json =
    JNull | JBool bool | JInt int | JFloat pyfloat | JStr string
  | JList "json list" | JDict "(string \<times> json) list"

text \<open>\<^verbatim>\<open>obj.get(key, default)\<close>: only a dict has the method.\<close>

definition py_get :: "json \<Rightarrow> string \<Rightarrow> json \<Rightarrow> pyexc + json" where
  "py_get obj key dflt =
     (case obj of
        JDict kvs \<Rightarrow> Inr (case map_of kvs key of None \<Rightarrow> dflt | Some v \<Rightarrow> v)
      | _ \<Rightarrow> Inl AttributeError)"

text \<open>\<^verbatim>\<open>float(v)\<close> on a JSON value; a bool is an int.\<close>

fun py_float :: "json \<Rightarrow> pyexc + pyfloat" where
  "py_float (JFloat x) = Inr x"
| "py_float (JInt n) = float_of_int n"
| "py_float (JBool b) = Inr (Fin (if b then 1 else 0))"
| "py_float (JStr s) = (case float_of_string s of None \<Rightarrow> Inl ValueError | Some x \<Rightarrow> Inr x)"
| "py_float JNull = Inl TypeError"
| "py_float (JList _) = Inl TypeError"
| "py_float (JDict _) = Inl TypeError"

text \<open>
  The state of the results path when \<^verbatim>\<open>_load_cache_ext_runtimes\<close> reads it:
  absent; present but \<^verbatim>\<open>open\<close> or \<^verbatim>\<open>read\<close> raises OSError; not JSON
  (JSONDecodeError); an exception the function does not catch (OSError from
  \<^verbatim>\<open>path.exists()\<close>, which is outside the \<^verbatim>\<open>try\<close>; from \<^verbatim>\<open>json.load\<close>,
  UnicodeDecodeError on bytes that are not UTF-8 and RecursionError on deep nesting); or
  the parsed value.
\<close>

datatype results_file = Missing | Unreadable | NotJson | LoadRaises pyexc | Holds json

text \<open>
  The body of the loop of \<^verbatim>\<open>_load_cache_ext_runtimes\<close>, lines 99 to 105, on one
  entry: an exception that leaves the loop, \<open>Inr None\<close> for \<^verbatim>\<open>continue\<close>, or the
  value appended to \<^verbatim>\<open>runtimes\<close>. The \<^verbatim>\<open>try\<close> around the conversion catches
  TypeError and ValueError only.
\<close>

definition loop_body :: "json \<Rightarrow> pyexc + pyfloat option" where
  "loop_body entry =
     (case py_get entry ''config'' (JDict []) of
        Inl e \<Rightarrow> Inl e
      | Inr config \<Rightarrow>
          (case py_get config ''cgroup_name'' JNull of
             Inl e \<Rightarrow> Inl e
           | Inr name \<Rightarrow>
               if name \<noteq> JStr ''cache_ext_test'' then Inr None
               else
                 (case py_get entry ''results'' (JDict []) of
                    Inl e \<Rightarrow> Inl e
                  | Inr results \<Rightarrow>
                      (case py_get results ''runtime_sec'' JNull of
                         Inl e \<Rightarrow> Inl e
                       | Inr v \<Rightarrow>
                           (case py_float v of
                              Inr x \<Rightarrow> Inr (Some x)
                            | Inl e \<Rightarrow>
                                if e = TypeError \<or> e = ValueError then Inr None
                                else Inl e)))))"

fun load_loop :: "json list \<Rightarrow> pyfloat list \<Rightarrow> pyexc + pyfloat list" where
  "load_loop [] runtimes = Inr runtimes"
| "load_loop (entry # rest) runtimes =
     (case loop_body entry of
        Inl e \<Rightarrow> Inl e
      | Inr None \<Rightarrow> load_loop rest runtimes
      | Inr (Some x) \<Rightarrow> load_loop rest (runtimes @ [x]))"

definition load_cache_ext_runtimes :: "results_file \<Rightarrow> pyexc + pyfloat list" where
  "load_cache_ext_runtimes f =
     (case f of
        Missing \<Rightarrow> Inr []
      | Unreadable \<Rightarrow> Inr []
      | NotJson \<Rightarrow> Inr []
      | LoadRaises e \<Rightarrow> Inl e
      | Holds data \<Rightarrow> load_loop (case data of JList entries \<Rightarrow> entries | _ \<Rightarrow> []) [])"

subsection \<open>The outside world\<close>

text \<open>
  A subprocess call either completes with its captured standard output, standard error
  and return code, or raises (an exception and its text), or never returns: the module
  sets no timeout.
\<close>

datatype subprocess = Completed string string int | Throws pyexc string | Blocks

text \<open>
  One field for each question the code asks. Paths are the strings \<^verbatim>\<open>str(path)\<close>
  gives. \<open>repo_root\<close> is \<^verbatim>\<open>Path.home() / "cache_ext"\<close>; \<open>expanduser\<close> is
  \<^verbatim>\<open>Path(candidate).expanduser()\<close>; \<open>source_exists\<close>, \<open>source_is_file\<close>,
  \<open>path_suffix\<close> and \<open>resolve\<close> are the methods of that name on a path;
  \<open>build_script_exists\<close> and \<open>run_script_exists\<close> are \<^verbatim>\<open>exists()\<close> on the two
  scripts. None of these calls is inside a \<^verbatim>\<open>try\<close>, and each of them but the
  suffix, which is read off the string, can raise: \<^verbatim>\<open>expanduser\<close> RuntimeError when
  the home directory of the named user cannot be determined, \<^verbatim>\<open>exists\<close>,
  \<^verbatim>\<open>is_file\<close> and \<^verbatim>\<open>resolve\<close> OSError (a name that is too long, a directory that
  cannot be searched). \<open>copyfile\<close> is \<open>None\<close> when \<^verbatim>\<open>shutil.copyfile\<close> returns and the text of the
  OSError when it raises; \<open>build_proc\<close> is what \<^verbatim>\<open>subprocess.run\<close> of the build
  script does; \<open>mkdir_results\<close> is the exception of \<^verbatim>\<open>RESULTS_DIR.mkdir\<close>, if any;
  \<open>timestamp\<close> is the formatted clock; \<open>run_proc\<close> is what starting \<^verbatim>\<open>run.sh\<close>
  with a results file name and waiting for it does; \<open>results_at\<close> is the state of a
  path once the benchmark step is over.
\<close>

record world =
  repo_root :: string
  expanduser :: "string \<Rightarrow> pyexc + string"
  source_exists :: "string \<Rightarrow> pyexc + bool"
  source_is_file :: "string \<Rightarrow> pyexc + bool"
  path_suffix :: "string \<Rightarrow> string"
  resolve :: "string \<Rightarrow> pyexc + string"
  copyfile :: "string \<Rightarrow> string \<Rightarrow> string option"
  build_script_exists :: "pyexc + bool"
  build_proc :: subprocess
  mkdir_results :: "pyexc option"
  timestamp :: string
  run_script_exists :: "pyexc + bool"
  run_proc :: "string \<Rightarrow> subprocess"
  results_at :: "string \<Rightarrow> results_file"

definition FILESEARCH_DIR :: "world \<Rightarrow> string" where
  "FILESEARCH_DIR w = repo_root w @ ''/eval/filesearch''"

definition RESULTS_DIR :: "world \<Rightarrow> string" where
  "RESULTS_DIR w = repo_root w @ ''/results''"

definition POLICY_DEST :: "world \<Rightarrow> string" where
  "POLICY_DEST w = repo_root w @ ''/policies/cache_ext_agent.bpf.c''"

definition BUILD_SCRIPT :: "world \<Rightarrow> string" where
  "BUILD_SCRIPT w = repo_root w @ ''/build_policies.sh''"

text \<open>What the code does to the outside world, in the order it does it.\<close>

datatype effect =
    Copyfile string string
  | RunBuild
  | Mkdir
  | Popen string

text \<open>A call that does not return a value: it raised, or it waits for ever.\<close>

datatype stop = Raised pyexc | NeverReturns

type_synonym artifacts = "string \<rightharpoonup> string"

subsection \<open>\<^verbatim>\<open>str(int)\<close>\<close>

function str_of_nat :: "nat \<Rightarrow> string" where
  "str_of_nat n =
     (if n < 10 then [''0123456789'' ! n]
      else str_of_nat (n div 10) @ [''0123456789'' ! (n mod 10)])"
  by pat_completeness auto
termination
  by (relation "measure id") auto

declare str_of_nat.simps [simp del]

definition str_of_int :: "int \<Rightarrow> string" where
  "str_of_int i = (if i < 0 then CHR ''-'' # str_of_nat (nat (- i)) else str_of_nat (nat i))"

subsection \<open>\<^verbatim>\<open>_run_filesearch_script\<close>\<close>

definition run_filesearch_script :: "world \<Rightarrow> string \<Rightarrow> stop + (artifacts \<times> effect list)" where
  "run_filesearch_script w results_filename =
     (let script = FILESEARCH_DIR w @ ''/run.sh''
      in case run_script_exists w of
           Inl exc \<Rightarrow> Inl (Raised exc)
         | Inr script_exists \<Rightarrow>
             if \<not> script_exists then
               Inr ([''run_error'' \<mapsto> ''run.sh not found at '' @ script], [])
             else
               (case run_proc w results_filename of
                  Throws exc txt \<Rightarrow>
                    Inr ([''run_error'' \<mapsto> ''Failed to execute run.sh: '' @ txt],
                         [Popen results_filename])
                | Blocks \<Rightarrow> Inl NeverReturns
                | Completed out err returncode \<Rightarrow>
                    Inr ([''run_stdout'' \<mapsto> out,
                          ''run_stderr'' \<mapsto> err,
                          ''run_exit_code'' \<mapsto> str_of_int returncode,
                          ''results_filename'' \<mapsto> results_filename],
                         [Popen results_filename])))"

subsection \<open>\<^verbatim>\<open>_prepare_policy\<close>\<close>

text \<open>
  Lines 145 to 168, which both branches of the copy decision run into: the build step,
  given the diagnostics and the trace so far. Neither \<^verbatim>\<open>BUILD_SCRIPT.exists()\<close> nor
  \<^verbatim>\<open>subprocess.run\<close> is guarded, so what they raise leaves the function.
\<close>

definition rebuild ::
  "world \<Rightarrow> artifacts \<Rightarrow> effect list \<Rightarrow> stop + (bool \<times> artifacts \<times> effect list)" where
  "rebuild w arts trace =
     (case build_script_exists w of
        Inl exc \<Rightarrow> Inl (Raised exc)
      | Inr script_exists \<Rightarrow>
          if \<not> script_exists then
            Inr (False,
                 arts(''build_error'' \<mapsto> ''build_policies.sh not found at '' @ BUILD_SCRIPT w),
                 trace)
          else
            (case build_proc w of
               Throws exc txt \<Rightarrow> Inl (Raised exc)
             | Blocks \<Rightarrow> Inl NeverReturns
             | Completed out err returncode \<Rightarrow>
                 (let arts' = arts(''build_stdout'' \<mapsto> out,
                                   ''build_stderr'' \<mapsto> err,
                                   ''build_exit_code'' \<mapsto> str_of_int returncode)
                  in if returncode \<noteq> 0 then
                       Inr (False,
                            arts'(''build_error'' \<mapsto>
                              ''build_policies.sh failed with exit code ''
                                @ str_of_int returncode),
                            trace @ [RunBuild])
                     else Inr (True, arts', trace @ [RunBuild]))))"

text \<open>
  The test of line 119, \<^verbatim>\<open>not source_path.exists() or not source_path.is_file()\<close>:
  \<^verbatim>\<open>is_file\<close> is asked only when \<^verbatim>\<open>exists\<close> returned true, and either call may
  raise.
\<close>

definition not_a_file :: "world \<Rightarrow> string \<Rightarrow> pyexc + bool" where
  "not_a_file w source_path =
     (case source_exists w source_path of
        Inl exc \<Rightarrow> Inl exc
      | Inr found \<Rightarrow>
          if \<not> found then Inr True
          else (case source_is_file w source_path of
                  Inl exc \<Rightarrow> Inl exc
                | Inr regular \<Rightarrow> Inr (\<not> regular)))"

text \<open>
  Lines 131 to 143, once both paths are resolved: the copy, unless source and
  destination are the same file, then the build step.
\<close>

definition copy_and_rebuild ::
  "world \<Rightarrow> string \<Rightarrow> string \<Rightarrow> stop + (bool \<times> artifacts \<times> effect list)" where
  "copy_and_rebuild w source_real dest_real =
     (if source_real \<noteq> dest_real then
        (case copyfile w source_real dest_real of
           Some exc \<Rightarrow>
             Inr (False,
                  [''program_error'' \<mapsto>
                     ''Failed to copy BPF program to '' @ POLICY_DEST w @ '': '' @ exc],
                  [Copyfile source_real dest_real])
         | None \<Rightarrow>
             rebuild w [''copied_policy_from'' \<mapsto> source_real]
               [Copyfile source_real dest_real])
      else rebuild w Map.empty [])"

definition prepare_policy ::
  "world \<Rightarrow> string option \<Rightarrow> stop + (bool \<times> artifacts \<times> effect list)" where
  "prepare_policy w program_path =
     (case program_path of
        None \<Rightarrow> Inr (True, Map.empty, [])
      | Some p \<Rightarrow>
          (let candidate = strip p
           in if candidate = [] then Inr (True, Map.empty, [])
              else
                (case expanduser w candidate of
                   Inl exc \<Rightarrow> Inl (Raised exc)
                 | Inr source_path \<Rightarrow>
                     (case not_a_file w source_path of
                        Inl exc \<Rightarrow> Inl (Raised exc)
                      | Inr missing \<Rightarrow>
                          if missing then
                            Inr (False,
                                 [''program_error'' \<mapsto>
                                    ''Provided program_path does not exist or is not a file: ''
                                      @ source_path],
                                 [])
                          else if path_suffix w source_path \<noteq> ''.c'' then
                            Inr (False,
                                 [''program_error'' \<mapsto>
                                    ''Expected a BPF C source (.c), got: '' @ source_path],
                                 [])
                          else
                            (case resolve w source_path of
                               Inl exc \<Rightarrow> Inl (Raised exc)
                             | Inr source_real \<Rightarrow>
                                 (case resolve w (POLICY_DEST w) of
                                    Inl exc \<Rightarrow> Inl (Raised exc)
                                  | Inr dest_real \<Rightarrow>
                                      copy_and_rebuild w source_real dest_real))))))"

subsection \<open>\<^verbatim>\<open>evaluate\<close>\<close>

record metrics =
  cache_ext_avg_runtime_sec :: pyfloat
  cache_ext_run_count :: pyfloat
  combined_score :: pyfloat

record evaluation_result =
  metrics :: metrics
  artifacts :: artifacts

definition results_filename :: "world \<Rightarrow> string" where
  "results_filename w = ''filesearch_results_'' @ timestamp w @ ''.json''"

definition results_path :: "world \<Rightarrow> string" where
  "results_path w = RESULTS_DIR w @ ''/'' @ results_filename w"

definition initial_metrics :: metrics where
  "initial_metrics =
     \<lparr>cache_ext_avg_runtime_sec = Fin 0, cache_ext_run_count = Fin 0, combined_score = Fin 0\<rparr>"

text \<open>
  The result comes with the trace of what was done. The count is \<^verbatim>\<open>float(len(runtimes))\<close>,
  exact for every length a list can have. Printing is left out.
\<close>

definition evaluate :: "world \<Rightarrow> string option \<Rightarrow> stop + (evaluation_result \<times> effect list)" where
  "evaluate w program_path =
     (case prepare_policy w program_path of
        Inl s \<Rightarrow> Inl s
      | Inr (success, prep_artifacts, trace) \<Rightarrow>
          (let arts = Map.empty ++ prep_artifacts
           in if \<not> success then
                Inr (\<lparr>metrics = initial_metrics\<lparr>combined_score := NInf\<rparr>, artifacts = arts\<rparr>,
                     trace)
              else
                (case mkdir_results w of
                   Some exc \<Rightarrow> Inl (Raised exc)
                 | None \<Rightarrow>
                     (case run_filesearch_script w (results_filename w) of
                        Inl s \<Rightarrow> Inl s
                      | Inr (run_artifacts, run_trace) \<Rightarrow>
                          (let arts' = arts ++ run_artifacts;
                               trace' = trace @ Mkdir # run_trace
                           in case load_cache_ext_runtimes (results_at w (results_path w)) of
                                Inl exc \<Rightarrow> Inl (Raised exc)
                              | Inr runtimes \<Rightarrow>
                                  if runtimes \<noteq> [] then
                                    (case mean runtimes of
                                       Inl exc \<Rightarrow> Inl (Raised exc)
                                     | Inr avg_runtime \<Rightarrow>
                                         Inr (\<lparr>metrics =
                                                 \<lparr>cache_ext_avg_runtime_sec = avg_runtime,
                                                  cache_ext_run_count =
                                                    Fin (of_nat (length runtimes)),
                                                  combined_score = fneg avg_runtime\<rparr>,
                                               artifacts = arts'\<rparr>,
                                              trace'))
                                  else
                                    Inr (\<lparr>metrics = initial_metrics\<lparr>combined_score := NInf\<rparr>,
                                           artifacts = arts'\<rparr>,
                                         trace'))))))"

subsection \<open>The specification's vocabulary\<close>

text \<open>
  A run record qualifies when its \<open>config\<close> object carries the expected
  \<open>cgroup_name\<close>; its runtime survives when \<open>results.runtime_sec\<close> converts to a
  float. These definitions follow the specification, not the code.
\<close>

definition lookup :: "json \<Rightarrow> string \<Rightarrow> json option" where
  "lookup obj key = (case obj of JDict kvs \<Rightarrow> map_of kvs key | _ \<Rightarrow> None)"

definition cgroup_matches :: "json \<Rightarrow> bool" where
  "cgroup_matches entry =
     (case lookup entry ''config'' of
        Some cfg \<Rightarrow> lookup cfg ''cgroup_name'' = Some (JStr ''cache_ext_test'')
      | None \<Rightarrow> False)"

definition surviving_runtime :: "json \<Rightarrow> pyfloat option" where
  "surviving_runtime entry =
     (if cgroup_matches entry then
        (case lookup entry ''results'' of
           Some res \<Rightarrow>
             (case lookup res ''runtime_sec'' of
                Some v \<Rightarrow> (case py_float v of Inr x \<Rightarrow> Some x | Inl _ \<Rightarrow> None)
              | None \<Rightarrow> None)
         | None \<Rightarrow> None)
      else None)"

definition run_record :: "string \<Rightarrow> json \<Rightarrow> json" where
  "run_record name v =
     JDict [(''config'', JDict [(''cgroup_name'', JStr name)]),
            (''results'', JDict [(''runtime_sec'', v)])]"

definition spec_example :: "json list" where
  "spec_example =
     [run_record ''cache_ext_test'' (JFloat (Fin 2)),
      run_record ''other'' (JFloat (Fin 99)),
      run_record ''cache_ext_test'' (JFloat (Fin 4))]"

definition is_fin :: "pyfloat \<Rightarrow> bool" where
  "is_fin x = (case x of Fin r \<Rightarrow> True | _ \<Rightarrow> False)"

text \<open>
  A record of another cgroup: an object whose \<open>config\<close> is absent, or is an object
  whose \<open>cgroup_name\<close> is not the expected string.
\<close>

definition foreign_record :: "json \<Rightarrow> bool" where
  "foreign_record entry =
     (case entry of
        JDict kvs \<Rightarrow>
          (case map_of kvs ''config'' of
             None \<Rightarrow> True
           | Some (JDict cfg) \<Rightarrow> map_of cfg ''cgroup_name'' \<noteq> Some (JStr ''cache_ext_test'')
           | Some _ \<Rightarrow> False)
      | _ \<Rightarrow> False)"

definition is_JList :: "json \<Rightarrow> bool" where
  "is_JList d = (case d of JList _ \<Rightarrow> True | _ \<Rightarrow> False)"

text \<open>The metrics that stand for "no usable signal".\<close>

definition no_signal :: metrics where
  "no_signal =
     \<lparr>cache_ext_avg_runtime_sec = Fin 0, cache_ext_run_count = Fin 0, combined_score = NInf\<rparr>"

text \<open>
  The diagnostic keys written by \<^verbatim>\<open>_prepare_policy\<close>, those written by
  \<^verbatim>\<open>_run_filesearch_script\<close>, and the ten keys the specification lists.
\<close>

definition staging_keys :: "string set" where
  "staging_keys = {''program_error'', ''copied_policy_from'', ''build_error'',
                   ''build_stdout'', ''build_stderr'', ''build_exit_code''}"

definition run_keys :: "string set" where
  "run_keys = {''run_error'', ''run_stdout'', ''run_stderr'', ''run_exit_code'',
               ''results_filename''}"

definition documented_keys :: "string set" where
  "documented_keys = {''run_error'', ''run_stdout'', ''run_stderr'', ''run_exit_code'',
     ''results_filename'', ''program_error'', ''copied_policy_from'', ''build_stdout'',
     ''build_stderr'', ''build_exit_code''}"

text \<open>The effects of staging: the copy and the build.\<close>

definition is_staging_effect :: "effect \<Rightarrow> bool" where
  "is_staging_effect e = (case e of Copyfile s d \<Rightarrow> True | RunBuild \<Rightarrow> True | _ \<Rightarrow> False)"

text \<open>
  A valid source: a non-blank candidate that expands to the path \<open>src\<close>, which exists,
  is a regular file and has the suffix \<open>.c\<close>. The source \<open>src\<close> and the destination
  resolve to \<open>s\<close> and \<open>d\<close>.
\<close>

definition valid_source :: "world \<Rightarrow> string \<Rightarrow> string \<Rightarrow> bool" where
  "valid_source w p src \<longleftrightarrow>
     strip p \<noteq> [] \<and> expanduser w (strip p) = Inr src \<and>
     source_exists w src = Inr True \<and> source_is_file w src = Inr True \<and>
     path_suffix w src = ''.c''"

definition resolves :: "world \<Rightarrow> string \<Rightarrow> string \<Rightarrow> string \<Rightarrow> bool" where
  "resolves w src s d \<longleftrightarrow> resolve w src = Inr s \<and> resolve w (POLICY_DEST w) = Inr d"

text \<open>
  A world for the examples: no user \<^verbatim>\<open>nosuchuser_zz\<close> is known, every other step
  succeeds, and the benchmark wrote the three records.
\<close>

definition example_world :: world where
  "example_world =
     \<lparr>repo_root = ''/root/cache_ext'',
      expanduser = (\<lambda>p. if p = ''~nosuchuser_zz/policy.c'' then Inl RuntimeError else Inr p),
      source_exists = (\<lambda>p. Inr (p \<noteq> ''/tmp/missing.c'')),
      source_is_file = (\<lambda>p. Inr True),
      path_suffix = (\<lambda>p. if p = ''/tmp/notes.txt'' then ''.txt'' else ''.c''),
      resolve = (\<lambda>p. Inr p),
      copyfile = (\<lambda>src dst. None),
      build_script_exists = Inr True,
      build_proc = Completed ''built'' [] 0,
      mkdir_results = None,
      timestamp = ''20240101_120000'',
      run_script_exists = Inr True,
      run_proc = (\<lambda>name. Completed ''done'' [] 0),
      results_at = (\<lambda>path. Holds (JList spec_example))\<rparr>"

section \<open>Evaluation of the model on literals\<close>

lemma floor_log2_numeral [simp]:
  "floor_log2 (numeral k) = (if (numeral k :: int) < 2 then 0 else 1 + floor_log2 (numeral k div 2))"
  by (rule floor_log2.simps)

lemma floor_log2_0 [simp]: "floor_log2 0 = 0"
  by (subst floor_log2.simps) simp

lemma floor_log2_1 [simp]: "floor_log2 1 = 0"
  by (subst floor_log2.simps) simp

lemma floor_rat_numeral [simp]: "\<lfloor>numeral a / numeral b :: rat\<rfloor> = numeral a div numeral b"
  using floor_divide_of_int_eq [of "numeral a" "numeral b", where ?'a = rat] by simp

lemma ceiling_rat_numeral [simp]: "\<lceil>numeral a / numeral b :: rat\<rceil> = - (- numeral a div numeral b)"
  using floor_divide_of_int_eq [of "- numeral a" "numeral b", where ?'a = rat]
  by (simp add: ceiling_def)

lemmas round_double_eval =
  round_double_def ilog2_def ceil_log2_def pow2_def pow10_def round_half_even_def Let_def

lemma mean_example: "mean [Fin 2, Fin 4] = Inr (Fin 3)"
  by (simp add: mean_def round_double_eval)

lemma load_example: "load_loop spec_example [] = Inr [Fin 2, Fin 4]"
  by (simp add: spec_example_def run_record_def loop_body_def py_get_def)

lemma round_double_tenth:
  "round_double (1 / 10) = Fin (3602879701896397 / 36028797018963968)"
  by (simp add: round_double_eval)

lemmas float_of_string_eval =
  float_of_string_def float_strip_def is_float_space_def starts_with_def lower_def number_def
  digitpart_def digit_of_def exponent_def digits_value_def round_double_eval

lemma float_of_string_signed_exponent: "float_of_string '' -1_0.5e+2 '' = Some (Fin (- 1050))"
  by (simp add: float_of_string_eval)

lemma float_of_string_infinity: "float_of_string ''-Infinity'' = Some NInf"
  by (simp add: float_of_string_eval)

lemma float_of_string_not_a_number: "float_of_string ''fast'' = None"
  by (simp add: float_of_string_eval)

lemma float_of_string_separator: "float_of_string (CHR 0x1C # ''2.5'') = None"
  by (simp add: float_of_string_eval)

lemma float_of_string_example: "float_of_string ''2.5'' = Some (Fin (5 / 2))"
  by (simp add: float_of_string_eval)

section \<open>The loop keeps the surviving runtimes\<close>

lemma py_get_Inr:
  "py_get obj k d = Inr v \<longleftrightarrow>
     (\<exists>kvs. obj = JDict kvs \<and> v = (case map_of kvs k of None \<Rightarrow> d | Some u \<Rightarrow> u))"
  by (cases obj) (auto simp: py_get_def)

lemma loop_body_survivor:
  assumes "loop_body entry = Inr r"
  shows "r = surviving_runtime entry"
proof -
  from assms obtain kvs where e: "entry = JDict kvs"
    by (cases entry) (simp_all add: loop_body_def py_get_def)
  show ?thesis
  proof (cases "map_of kvs ''config''")
    case None
    with assms e show ?thesis
      by (simp add: loop_body_def py_get_def surviving_runtime_def cgroup_matches_def lookup_def)
  next
    case (Some config)
    with assms e obtain cfg where c: "config = JDict cfg"
      by (cases config) (simp_all add: loop_body_def py_get_def)
    show ?thesis
    proof (cases "map_of cfg ''cgroup_name'' = Some (JStr ''cache_ext_test'')")
      case False
      with assms e Some c show ?thesis
        by (auto simp: loop_body_def py_get_def surviving_runtime_def cgroup_matches_def
            lookup_def split: option.splits)
    next
      case True
      with e Some c have m: "cgroup_matches entry"
        by (simp add: cgroup_matches_def lookup_def)
      from assms e Some c True have
        b: "(case py_get entry ''results'' (JDict []) of
               Inl e \<Rightarrow> Inl e
             | Inr results \<Rightarrow>
                 (case py_get results ''runtime_sec'' JNull of
                    Inl e \<Rightarrow> Inl e
                  | Inr v \<Rightarrow>
                      (case py_float v of
                         Inr x \<Rightarrow> Inr (Some x)
                       | Inl e \<Rightarrow>
                           if e = TypeError \<or> e = ValueError then Inr None
                           else Inl e))) = Inr r"
        by (simp add: loop_body_def py_get_def)
      then obtain results where r1: "py_get entry ''results'' (JDict []) = Inr results"
        by (cases "py_get entry ''results'' (JDict [])") simp_all
      with b obtain v where r2: "py_get results ''runtime_sec'' JNull = Inr v"
        by (cases "py_get results ''runtime_sec'' JNull") simp_all
      from r2 obtain rkvs where r3: "results = JDict rkvs"
        by (auto simp: py_get_Inr)
      from b r1 r2 have r4:
        "(case py_float v of Inr x \<Rightarrow> Inr (Some x)
          | Inl e \<Rightarrow> if e = TypeError \<or> e = ValueError then Inr None else Inl e) = Inr r"
        by simp
      show ?thesis
      proof (cases "map_of kvs ''results''")
        case None
        with r1 e r2 have "v = JNull" by (auto simp: py_get_def)
        with r4 None e m show ?thesis
          by (simp add: surviving_runtime_def lookup_def)
      next
        case (Some res)
        with r1 e r3 have res: "res = JDict rkvs" by (simp add: py_get_def)
        show ?thesis
        proof (cases "map_of rkvs ''runtime_sec''")
          case None
          with r2 r3 have "v = JNull" by (simp add: py_get_def)
          with r4 None Some res e m show ?thesis
            by (simp add: surviving_runtime_def lookup_def)
        next
          case (Some u)
          with r2 r3 have "v = u" by (simp add: py_get_def)
          with r4 Some \<open>map_of kvs ''results'' = Some res\<close> res e m show ?thesis
            by (auto simp: surviving_runtime_def lookup_def split: sum.splits if_splits)
        qed
      qed
    qed
  qed
qed

lemma load_loop_survivors:
  "load_loop entries acc = Inr rs \<Longrightarrow> rs = acc @ List.map_filter surviving_runtime entries"
proof (induction entries arbitrary: acc)
  case Nil
  then show ?case by (simp add: List.map_filter_simps)
next
  case (Cons entry rest)
  show ?case
  proof (cases "loop_body entry")
    case (Inl e)
    with Cons.prems show ?thesis by simp
  next
    case (Inr r)
    show ?thesis
    proof (cases r)
      case None
      with Inr have b: "loop_body entry = Inr None" by simp
      then have s: "surviving_runtime entry = None" by (rule loop_body_survivor [symmetric])
      from Cons.prems b have "load_loop rest acc = Inr rs" by simp
      then have "rs = acc @ List.map_filter surviving_runtime rest" by (rule Cons.IH)
      then show ?thesis using s by simp
    next
      case (Some x)
      with Inr have b: "loop_body entry = Inr (Some x)" by simp
      then have s: "surviving_runtime entry = Some x" by (rule loop_body_survivor [symmetric])
      from Cons.prems b have "load_loop rest (acc @ [x]) = Inr rs" by simp
      then have "rs = (acc @ [x]) @ List.map_filter surviving_runtime rest" by (rule Cons.IH)
      then show ?thesis using s by simp
    qed
  qed
qed

lemma special_sum_finite: "list_all is_fin xs \<Longrightarrow> special_sum xs acc = acc"
  by (induction xs arbitrary: acc) (auto simp: is_fin_def split: pyfloat.splits)

lemma mean_nonempty: "xs \<noteq> [] \<Longrightarrow> \<exists>avg. mean xs = Inr avg"
  by (simp add: mean_def split: option.splits)

lemma mean_finite:
  "xs \<noteq> [] \<Longrightarrow> list_all is_fin xs \<Longrightarrow>
   mean xs = Inr (round_double (sum_list (map finite_part xs) / of_nat (length xs)))"
  by (simp add: mean_def special_sum_finite)

lemma evaluate_reaches_aggregation:
  assumes "prepare_policy w p = Inr (True, pa, tr)"
    and "mkdir_results w = None"
    and "run_filesearch_script w (results_filename w) = Inr (ra, rtr)"
  shows "evaluate w p =
     (case load_cache_ext_runtimes (results_at w (results_path w)) of
        Inl exc \<Rightarrow> Inl (Raised exc)
      | Inr runtimes \<Rightarrow>
          if runtimes \<noteq> [] then
            (case mean runtimes of
               Inl exc \<Rightarrow> Inl (Raised exc)
             | Inr avg \<Rightarrow>
                 Inr (\<lparr>metrics = \<lparr>cache_ext_avg_runtime_sec = avg,
                                   cache_ext_run_count = Fin (of_nat (length runtimes)),
                                   combined_score = fneg avg\<rparr>,
                        artifacts = pa ++ ra\<rparr>,
                      tr @ Mkdir # rtr))
          else Inr (\<lparr>metrics = initial_metrics\<lparr>combined_score := NInf\<rparr>,
                      artifacts = pa ++ ra\<rparr>,
                    tr @ Mkdir # rtr))"
  using assms by (simp add: evaluate_def Let_def)

section \<open>Aggregation\<close>

text \<open>
  Claim C1. Once staging has succeeded, the results directory exists and the benchmark
  step has returned, a results file holding the three records of the specification's
  example (runtimes 2.0 and 4.0 in \<open>cache_ext_test\<close>, 99.0 in \<open>other\<close>) gives the
  average 3.0, the run count 2 and the combined score -3.0. In general, when the loop
  over the entries of the file returns a non-empty list, that list holds exactly the
  runtimes of the entries whose \<open>config.cgroup_name\<close> is \<open>cache_ext_test\<close>, in order;
  the average is their mean (the exact mean rounded once when all are finite), the count
  is their number, and the combined score is the negated average.
\<close>

theorem evaluate_averages_qualifying_runs:
  assumes "prepare_policy w p = Inr (True, pa, tr)"
    and "mkdir_results w = None"
    and "run_filesearch_script w (results_filename w) = Inr (ra, rtr)"
  shows "(results_at w (results_path w) = Holds (JList spec_example) \<longrightarrow>
           (\<exists>res t. evaluate w p = Inr (res, t) \<and>
              metrics res = \<lparr>cache_ext_avg_runtime_sec = Fin 3, cache_ext_run_count = Fin 2,
                             combined_score = Fin (- 3)\<rparr>)) \<and>
         (\<forall>entries rs.
            results_at w (results_path w) = Holds (JList entries) \<and>
            load_loop entries [] = Inr rs \<and> rs \<noteq> [] \<longrightarrow>
            rs = List.map_filter surviving_runtime entries \<and>
            (\<exists>avg res t. mean rs = Inr avg \<and>
               (list_all is_fin rs \<longrightarrow>
                  avg = round_double (sum_list (map finite_part rs) / of_nat (length rs))) \<and>
               evaluate w p = Inr (res, t) \<and>
               metrics res = \<lparr>cache_ext_avg_runtime_sec = avg,
                              cache_ext_run_count = Fin (of_nat (length rs)),
                              combined_score = fneg avg\<rparr>))"
proof (intro conjI allI impI)
  assume "results_at w (results_path w) = Holds (JList spec_example)"
  then show "\<exists>res t. evaluate w p = Inr (res, t) \<and>
      metrics res = \<lparr>cache_ext_avg_runtime_sec = Fin 3, cache_ext_run_count = Fin 2,
                     combined_score = Fin (- 3)\<rparr>"
    by (simp add: evaluate_reaches_aggregation [OF assms] load_cache_ext_runtimes_def
        load_example mean_example)
next
  fix entries rs
  assume h: "results_at w (results_path w) = Holds (JList entries) \<and>
             load_loop entries [] = Inr rs \<and> rs \<noteq> []"
  from h show "rs = List.map_filter surviving_runtime entries"
    using load_loop_survivors [of entries "[]" rs] by simp
  from h obtain avg where a: "mean rs = Inr avg"
    using mean_nonempty by blast
  have f: "list_all is_fin rs \<longrightarrow>
      avg = round_double (sum_list (map finite_part rs) / of_nat (length rs))"
    using h a mean_finite [of rs] by auto
  from h a have "evaluate w p =
      Inr (\<lparr>metrics = \<lparr>cache_ext_avg_runtime_sec = avg,
                        cache_ext_run_count = Fin (of_nat (length rs)),
                        combined_score = fneg avg\<rparr>,
             artifacts = pa ++ ra\<rparr>, tr @ Mkdir # rtr)"
    by (simp add: evaluate_reaches_aggregation [OF assms] load_cache_ext_runtimes_def)
  with a f show "\<exists>avg res t. mean rs = Inr avg \<and>
      (list_all is_fin rs \<longrightarrow>
         avg = round_double (sum_list (map finite_part rs) / of_nat (length rs))) \<and>
      evaluate w p = Inr (res, t) \<and>
      metrics res = \<lparr>cache_ext_avg_runtime_sec = avg,
                     cache_ext_run_count = Fin (of_nat (length rs)),
                     combined_score = fneg avg\<rparr>"
    by simp
qed

theorem evaluate_averages_qualifying_runs_witness:
  "prepare_policy example_world None = Inr (True, Map.empty, []) \<and>
   mkdir_results example_world = None \<and>
   (\<exists>ra rtr. run_filesearch_script example_world (results_filename example_world) = Inr (ra, rtr)) \<and>
   results_at example_world (results_path example_world) = Holds (JList spec_example) \<and>
   (\<exists>res t. evaluate example_world None = Inr (res, t) \<and>
      metrics res = \<lparr>cache_ext_avg_runtime_sec = Fin 3, cache_ext_run_count = Fin 2,
                     combined_score = Fin (- 3)\<rparr>)"
proof -
  have h1: "prepare_policy example_world None = Inr (True, Map.empty, [])"
    by (simp add: prepare_policy_def)
  have h2: "mkdir_results example_world = None"
    by (simp add: example_world_def)
  obtain ra rtr where
    h3: "run_filesearch_script example_world (results_filename example_world) = Inr (ra, rtr)"
    by (simp add: run_filesearch_script_def example_world_def)
  have h4: "results_at example_world (results_path example_world) = Holds (JList spec_example)"
    by (simp add: example_world_def)
  from evaluate_averages_qualifying_runs [OF h1 h2 h3] h1 h2 h3 h4 show ?thesis
    by blast
qed

lemma loop_body_foreign: "foreign_record entry \<Longrightarrow> loop_body entry = Inr None"
  by (auto simp: foreign_record_def loop_body_def py_get_def split: json.splits option.splits)

lemma load_loop_foreign: "list_all foreign_record es \<Longrightarrow> load_loop es acc = Inr acc"
  by (induction es arbitrary: acc) (simp_all add: loop_body_foreign)

lemma entries_not_list: "\<not> is_JList d \<Longrightarrow> (case d of JList entries \<Rightarrow> entries | _ \<Rightarrow> []) = []"
  by (cases d) (simp_all add: is_JList_def)

lemma no_signal_initial: "initial_metrics\<lparr>combined_score := NInf\<rparr> = no_signal"
  by (simp add: initial_metrics_def no_signal_def)

text \<open>
  When the loader returns the empty list, the metrics are those of "no usable signal".
  A missing, unreadable or non-JSON file, a value that is not a list, the empty list and
  a list of records of other cgroups all make the loader return the empty list.
\<close>

lemma empty_runtimes_give_no_signal:
  assumes "prepare_policy w p = Inr (True, pa, tr)"
    and "mkdir_results w = None"
    and "run_filesearch_script w (results_filename w) = Inr (ra, rtr)"
    and "results_at w (results_path w) = f"
    and "f = Missing \<or> f = Unreadable \<or> f = NotJson \<or> (\<exists>d. f = Holds d \<and> \<not> is_JList d) \<or>
         f = Holds (JList []) \<or> (\<exists>es. f = Holds (JList es) \<and> list_all foreign_record es) \<or>
         load_cache_ext_runtimes f = Inr []"
  shows "\<exists>res t. evaluate w p = Inr (res, t) \<and> metrics res = no_signal"
proof -
  from assms(5) have "load_cache_ext_runtimes f = Inr []"
    by (auto simp: load_cache_ext_runtimes_def entries_not_list load_loop_foreign)
  with assms(4) show ?thesis
    by (simp add: evaluate_reaches_aggregation [OF assms(1-3)] no_signal_initial)
qed

text \<open>
  Claim C2 does not hold of the code. The claim gives the metrics 0.0, 0 and negative
  infinity whenever no runtime survives, among others when no record qualifies and when
  the content of the file is not a JSON list. The results file
  \<^verbatim>\<open>[{"config": null}]\<close> holds no qualifying record, and a results file whose bytes are
  not UTF-8 holds no JSON list; on both \<open>evaluate\<close> returns no metrics at all: the
  AttributeError of \<^verbatim>\<open>config.get\<close> on \<^verbatim>\<open>None\<close> and the UnicodeDecodeError of
  \<^verbatim>\<open>json.load\<close> are not caught.
\<close>

theorem no_qualifying_record_raises:
  "evaluate (example_world\<lparr>results_at := \<lambda>path. Holds (JList [JDict [(''config'', JNull)]])\<rparr>)
     None = Inl (Raised AttributeError) \<and>
   List.map_filter surviving_runtime [JDict [(''config'', JNull)]] = [] \<and>
   evaluate (example_world\<lparr>results_at := \<lambda>path. LoadRaises UnicodeDecodeError\<rparr>) None
     = Inl (Raised UnicodeDecodeError)"
  by (simp add: load_cache_ext_runtimes_def loop_body_def py_get_def evaluate_def
      prepare_policy_def run_filesearch_script_def example_world_def Let_def
      surviving_runtime_def cgroup_matches_def lookup_def)

text \<open>
  Claim C4 does not hold of the code. An entry of the list that is not an object has no
  \<^verbatim>\<open>get\<close> method: the AttributeError is raised outside the \<^verbatim>\<open>try\<close>, leaves
  \<^verbatim>\<open>_load_cache_ext_runtimes\<close> and leaves \<^verbatim>\<open>evaluate\<close>. The same happens when
  \<open>config\<close> is not an object, and, inside the \<^verbatim>\<open>try\<close> that catches TypeError and
  ValueError only, when \<open>results\<close> is not an object. The first two conjuncts are the
  results file \<^verbatim>\<open>[1]\<close>.
\<close>

theorem non_object_entry_raises:
  "load_cache_ext_runtimes (Holds (JList [JInt 1])) = Inl AttributeError \<and>
   evaluate (example_world\<lparr>results_at := \<lambda>path. Holds (JList [JInt 1])\<rparr>) None
     = Inl (Raised AttributeError) \<and>
   load_cache_ext_runtimes (Holds (JList [JDict [(''config'', JStr ''fast'')]]))
     = Inl AttributeError \<and>
   load_cache_ext_runtimes (Holds (JList
     [JDict [(''config'', JDict [(''cgroup_name'', JStr ''cache_ext_test'')]),
             (''results'', JList [])]])) = Inl AttributeError"
  by (simp add: load_cache_ext_runtimes_def loop_body_def py_get_def evaluate_def
      prepare_policy_def run_filesearch_script_def example_world_def Let_def)

section \<open>Staging, branch by branch\<close>

lemma rebuild_keys:
  assumes "rebuild w a t = Inr (ok, a', t')"
  shows "dom a' \<subseteq> dom a \<union> staging_keys \<and> set t' \<subseteq> set t \<union> {RunBuild}"
  using assms
  by (auto simp: rebuild_def staging_keys_def Let_def
      split: sum.splits if_splits subprocess.splits)

lemma prepare_blank:
  "strip p = [] \<Longrightarrow> prepare_policy w (Some p) = Inr (True, Map.empty, [])"
  by (simp add: prepare_policy_def)

lemma prepare_not_found:
  "strip p \<noteq> [] \<Longrightarrow> expanduser w (strip p) = Inr src \<Longrightarrow> not_a_file w src = Inr True \<Longrightarrow>
   prepare_policy w (Some p) =
     Inr (False,
          [''program_error'' \<mapsto>
             ''Provided program_path does not exist or is not a file: '' @ src],
          [])"
  by (simp add: prepare_policy_def Let_def)


lemma prepare_valid:
  "valid_source w p src \<Longrightarrow> resolves w src s d \<Longrightarrow>
   prepare_policy w (Some p) = copy_and_rebuild w s d"
  by (simp add: prepare_policy_def not_a_file_def valid_source_def resolves_def Let_def)

lemma copy_and_rebuild_same: "copy_and_rebuild w d d = rebuild w Map.empty []"
  by (simp add: copy_and_rebuild_def)

lemma copy_and_rebuild_copied:
  "s \<noteq> d \<Longrightarrow> copyfile w s d = None \<Longrightarrow>
   copy_and_rebuild w s d = rebuild w [''copied_policy_from'' \<mapsto> s] [Copyfile s d]"
  by (simp add: copy_and_rebuild_def)

lemma copy_and_rebuild_failed:
  "s \<noteq> d \<Longrightarrow> copyfile w s d = Some exc \<Longrightarrow>
   copy_and_rebuild w s d =
     Inr (False,
          [''program_error'' \<mapsto> ''Failed to copy BPF program to '' @ POLICY_DEST w @ '': '' @ exc],
          [Copyfile s d])"
  by (simp add: copy_and_rebuild_def)

lemma program_error_key: "dom [''program_error'' \<mapsto> m] \<subseteq> staging_keys"
  by (simp add: staging_keys_def)

lemma copied_policy_from_key: "dom [''copied_policy_from'' \<mapsto> m] \<subseteq> staging_keys"
  by (simp add: staging_keys_def)

lemma copy_and_rebuild_keys:
  assumes "copy_and_rebuild w s d = Inr (ok, a, t)"
  shows "dom a \<subseteq> staging_keys \<and> list_all is_staging_effect t"
proof (cases "s = d")
  case True
  with assms have "rebuild w Map.empty [] = Inr (ok, a, t)"
    by (simp add: copy_and_rebuild_same)
  from rebuild_keys [OF this] show ?thesis
    by (auto simp: list_all_iff is_staging_effect_def)
next
  case ne: False
  show ?thesis
  proof (cases "copyfile w s d")
    case (Some exc)
    from assms have "a = [''program_error'' \<mapsto>
        ''Failed to copy BPF program to '' @ POLICY_DEST w @ '': '' @ exc]"
      and "t = [Copyfile s d]"
      by (simp_all add: copy_and_rebuild_failed [OF ne Some])
    with program_error_key show ?thesis
      by (simp add: is_staging_effect_def)
  next
    case None
    with assms ne have
      "rebuild w [''copied_policy_from'' \<mapsto> s] [Copyfile s d] = Inr (ok, a, t)"
      by (simp add: copy_and_rebuild_copied)
    from rebuild_keys [OF this] have
      k: "dom a \<subseteq> dom [''copied_policy_from'' \<mapsto> s] \<union> staging_keys"
      and e: "set t \<subseteq> {Copyfile s d, RunBuild}"
      by auto
    from k copied_policy_from_key [of s] have "dom a \<subseteq> staging_keys" by blast
    moreover from e have "list_all is_staging_effect t"
      by (auto simp: list_all_iff is_staging_effect_def)
    ultimately show ?thesis by simp
  qed
qed

lemma prepare_policy_shapes:
  assumes "prepare_policy w p = Inr (ok, a, t)"
  shows "(a = Map.empty \<and> t = []) \<or> (\<exists>m. a = [''program_error'' \<mapsto> m] \<and> t = []) \<or>
         (\<exists>s d. copy_and_rebuild w s d = Inr (ok, a, t))"
  using assms
  by (auto simp: prepare_policy_def Let_def split: option.splits sum.splits if_splits)

lemma prepare_policy_keys:
  assumes "prepare_policy w p = Inr (ok, a, t)"
  shows "dom a \<subseteq> staging_keys \<and> list_all is_staging_effect t"
proof -
  from prepare_policy_shapes [OF assms]
  consider "a = Map.empty" "t = []"
    | m where "a = [''program_error'' \<mapsto> m]" "t = []"
    | s d where "copy_and_rebuild w s d = Inr (ok, a, t)"
    by blast
  then show ?thesis
  proof cases
    case 1
    then show ?thesis by simp
  next
    case 2
    with program_error_key [of m] show ?thesis by simp
  next
    case 3
    then show ?thesis by (rule copy_and_rebuild_keys)
  qed
qed

lemma run_filesearch_script_keys:
  assumes "run_filesearch_script w n = Inr (a, t)"
  shows "dom a \<subseteq> run_keys \<and> set t \<subseteq> {Popen n}"
  using assms
  by (auto simp: run_filesearch_script_def run_keys_def Let_def
      split: sum.splits if_splits subprocess.splits)

lemma staging_run_disjoint: "staging_keys \<inter> run_keys = {}"
  by (simp add: staging_keys_def run_keys_def)

lemma evaluate_staging_failed:
  "prepare_policy w p = Inr (False, a, t) \<Longrightarrow>
   evaluate w p = Inr (\<lparr>metrics = initial_metrics\<lparr>combined_score := NInf\<rparr>, artifacts = a\<rparr>, t)"
  by (simp add: evaluate_def)

lemma staging_effect_not_popen: "list_all is_staging_effect t \<Longrightarrow> Popen n \<notin> set t"
  by (auto simp: list_all_iff is_staging_effect_def)

lemma run_keys_not_staging:
  "''run_stdout'' \<notin> staging_keys" "''run_stderr'' \<notin> staging_keys"
  by (simp_all add: staging_keys_def)

text \<open>
  When staging returns failure, \<open>evaluate\<close> returns the score negative infinity with the
  staging diagnostics, and the benchmark is not started.
\<close>

lemma failed_staging_short_circuits:
  assumes "prepare_policy w p = Inr (False, a, t)"
  shows "\<exists>res. evaluate w p = Inr (res, t) \<and>
           combined_score (metrics res) = NInf \<and>
           ''run_stdout'' \<notin> dom (artifacts res) \<and> ''run_stderr'' \<notin> dom (artifacts res) \<and>
           (\<forall>n. Popen n \<notin> set t)"
proof -
  from prepare_policy_keys [OF assms] have k: "dom a \<subseteq> staging_keys"
    and e: "list_all is_staging_effect t" by simp_all
  from k run_keys_not_staging have "''run_stdout'' \<notin> dom a" "''run_stderr'' \<notin> dom a"
    by blast+
  moreover from e have "\<forall>n. Popen n \<notin> set t"
    by (simp add: staging_effect_not_popen)
  ultimately show ?thesis
    by (simp add: evaluate_staging_failed [OF assms])
qed

section \<open>Staging\<close>

text \<open>
  Claim C9. For an absent candidate path, and for a candidate string that is blank once
  its white space is stripped, staging succeeds with an empty diagnostic map and an empty
  trace: no copy, no build.
\<close>

theorem blank_candidate_stages_nothing:
  assumes "program_path = None \<or> (\<exists>p. program_path = Some p \<and> strip p = [])"
  shows "prepare_policy w program_path = Inr (True, Map.empty, [])"
  using assms by (auto simp: prepare_policy_def)

theorem blank_candidate_stages_nothing_witness:
  "strip [CHR '' '', CHR 0x09, CHR '' ''] = [] \<and>
   prepare_policy example_world (Some [CHR '' '', CHR 0x09, CHR '' '']) = Inr (True, Map.empty, [])"
proof -
  have h: "strip [CHR '' '', CHR 0x09, CHR '' ''] = []"
    by (simp add: strip_def is_space_def)
  then have "Some [CHR '' '', CHR 0x09, CHR '' ''] = None \<or>
      (\<exists>p. Some [CHR '' '', CHR 0x09, CHR '' ''] = Some p \<and> strip p = [])"
    by simp
  from blank_candidate_stages_nothing [OF this] h show ?thesis by simp
qed



lemma strip_tmp_policy: "strip ''/tmp/policy.c'' = ''/tmp/policy.c''"
  by (simp add: strip_def is_space_def)

lemma strip_unknown_user: "strip ''~nosuchuser_zz/policy.c'' = ''~nosuchuser_zz/policy.c''"
  by (simp add: strip_def is_space_def)

text \<open>
  Claim C3 does not hold of the code. The claim gives the score negative infinity for
  every staging failure, a candidate path that does not exist among them. The calls
  that inspect the candidate (\<^verbatim>\<open>expanduser\<close>, \<^verbatim>\<open>exists\<close>, \<^verbatim>\<open>is_file\<close>,
  \<^verbatim>\<open>resolve\<close>, lines 118 to 132) are outside any \<^verbatim>\<open>try\<close>, unlike the copy and the
  start of the benchmark. For the candidate \<^verbatim>\<open>~nosuchuser_zz/policy.c\<close>, which names no
  file since there is no such user, \<^verbatim>\<open>expanduser\<close> raises RuntimeError and
  \<open>evaluate\<close> returns nothing; the same holds when \<^verbatim>\<open>exists\<close> raises OSError
  (a name that is too long, a directory that may not be searched).
\<close>

theorem unknown_user_candidate_raises:
  "evaluate example_world (Some ''~nosuchuser_zz/policy.c'') = Inl (Raised RuntimeError) \<and>
   evaluate (example_world\<lparr>source_exists := \<lambda>p. Inl OSError\<rparr>) (Some ''/tmp/policy.c'')
     = Inl (Raised OSError)"
  by (simp add: evaluate_def prepare_policy_def not_a_file_def strip_unknown_user
      strip_tmp_policy example_world_def Let_def)

section \<open>The benchmark step\<close>

text \<open>
  Claim C5. When evaluation reaches the benchmark step (staging succeeded, the results
  directory was created) and \<^verbatim>\<open>run.sh\<close> does not exist, the step returns the single
  diagnostic \<open>run_error\<close> naming the missing script and starts no subprocess;
  evaluation goes on to aggregation, and with no results file it returns the combined
  score negative infinity, not an exception.
\<close>

theorem missing_run_script_is_soft:
  assumes "prepare_policy w p = Inr (True, pa, tr)"
    and "mkdir_results w = None"
    and "run_script_exists w = Inr False"
  shows "run_filesearch_script w (results_filename w) =
           Inr ([''run_error'' \<mapsto> ''run.sh not found at '' @ FILESEARCH_DIR w @ ''/run.sh''], []) \<and>
         (results_at w (results_path w) = Missing \<longrightarrow>
            (\<exists>res t. evaluate w p = Inr (res, t) \<and>
               artifacts res ''run_error''
                 = Some (''run.sh not found at '' @ FILESEARCH_DIR w @ ''/run.sh'') \<and>
               (\<forall>n. Popen n \<notin> set t) \<and> Mkdir \<in> set t \<and>
               combined_score (metrics res) = NInf))"
proof -
  have r: "run_filesearch_script w (results_filename w) =
      Inr ([''run_error'' \<mapsto> ''run.sh not found at '' @ FILESEARCH_DIR w @ ''/run.sh''], [])"
    using assms(3) by (simp add: run_filesearch_script_def)
  from prepare_policy_keys [OF assms(1)] have "\<forall>n. Popen n \<notin> set tr"
    by (simp add: staging_effect_not_popen)
  then show ?thesis
    by (simp add: r evaluate_reaches_aggregation [OF assms(1,2) r] load_cache_ext_runtimes_def)
qed

theorem missing_run_script_is_soft_witness:
  "prepare_policy (example_world\<lparr>run_script_exists := Inr False, results_at := \<lambda>path. Missing\<rparr>)
     None = Inr (True, Map.empty, []) \<and>
   mkdir_results (example_world\<lparr>run_script_exists := Inr False, results_at := \<lambda>path. Missing\<rparr>)
     = None \<and>
   run_script_exists (example_world\<lparr>run_script_exists := Inr False, results_at := \<lambda>path. Missing\<rparr>)
     = Inr False \<and>
   (\<exists>res t. evaluate (example_world\<lparr>run_script_exists := Inr False, results_at := \<lambda>path. Missing\<rparr>)
        None = Inr (res, t) \<and>
      artifacts res ''run_error''
        = Some ''run.sh not found at /root/cache_ext/eval/filesearch/run.sh'' \<and>
      t = [Mkdir] \<and> combined_score (metrics res) = NInf)"
proof -
  let ?w = "example_world\<lparr>run_script_exists := Inr False, results_at := \<lambda>path. Missing\<rparr>"
  have h1: "prepare_policy ?w None = Inr (True, Map.empty, [])"
    by (simp add: prepare_policy_def)
  have h2: "mkdir_results ?w = None"
    by (simp add: example_world_def)
  have h3: "run_script_exists ?w = Inr False"
    by simp
  have h4: "results_at ?w (results_path ?w) = Missing"
    by simp
  have d: "FILESEARCH_DIR ?w = ''/root/cache_ext/eval/filesearch''"
    by (simp add: FILESEARCH_DIR_def example_world_def)
  from missing_run_script_is_soft [OF h1 h2 h3] h4 h1 h2 h3 d show ?thesis
    by (auto simp: evaluate_def Let_def load_cache_ext_runtimes_def)
qed

section \<open>Copying and building\<close>

lemma rebuild_from_empty:
  "rebuild w a t =
     (case rebuild w Map.empty [] of
        Inl s \<Rightarrow> Inl s
      | Inr (ok, b, u) \<Rightarrow> Inr (ok, a ++ b, t @ u))"
  by (simp add: rebuild_def Let_def split: sum.splits subprocess.splits)

lemma rebuild_empty_trace:
  assumes "rebuild w Map.empty [] = Inr (ok, a, t)"
  shows "a ''copied_policy_from'' = None \<and> (\<forall>s d. Copyfile s d \<notin> set t) \<and>
         (build_script_exists w = Inr True \<longrightarrow> t = [RunBuild])"
  using assms
  by (auto simp: rebuild_def Let_def split: sum.splits if_splits subprocess.splits)

text \<open>
  Claim C7. When a valid candidate resolves to the destination file, staging is the build
  step alone: nothing is copied and no \<open>copied_policy_from\<close> diagnostic is recorded,
  and the build runs whenever its script exists. A valid candidate that resolves elsewhere
  and is copied gets the same outcome of the same build step, with the copy put in front
  of the trace and \<open>copied_policy_from\<close> added to the diagnostics.
\<close>

theorem same_file_skips_copy_and_builds:
  assumes "valid_source w p sp" and "resolves w sp d d"
    and "valid_source w q sq" and "resolves w sq s d" and "s \<noteq> d"
    and "copyfile w s d = None"
  shows "prepare_policy w (Some p) = rebuild w Map.empty [] \<and>
         (\<forall>ok a t. prepare_policy w (Some p) = Inr (ok, a, t) \<longrightarrow>
            a ''copied_policy_from'' = None \<and> (\<forall>s d. Copyfile s d \<notin> set t) \<and>
            (build_script_exists w = Inr True \<longrightarrow> t = [RunBuild])) \<and>
         prepare_policy w (Some q) =
           (case prepare_policy w (Some p) of
              Inl e \<Rightarrow> Inl e
            | Inr (ok, a, t) \<Rightarrow>
                Inr (ok, [''copied_policy_from'' \<mapsto> s] ++ a, Copyfile s d # t))"
proof (intro conjI allI impI)
  show same: "prepare_policy w (Some p) = rebuild w Map.empty []"
    by (simp add: prepare_valid [OF assms(1,2)] copy_and_rebuild_same)
  have "prepare_policy w (Some q) = rebuild w [''copied_policy_from'' \<mapsto> s] [Copyfile s d]"
    by (simp add: prepare_valid [OF assms(3,4)] copy_and_rebuild_copied [OF assms(5,6)])
  then show "prepare_policy w (Some q) =
      (case prepare_policy w (Some p) of
         Inl e \<Rightarrow> Inl e
       | Inr (ok, a, t) \<Rightarrow>
           Inr (ok, [''copied_policy_from'' \<mapsto> s] ++ a, Copyfile s d # t))"
    by (simp only: same) (subst rebuild_from_empty, simp split: sum.splits)
  fix ok a t
  assume "prepare_policy w (Some p) = Inr (ok, a, t)"
  with same have r: "rebuild w Map.empty [] = Inr (ok, a, t)" by simp
  from rebuild_empty_trace [OF r] show "a ''copied_policy_from'' = None"
    and "\<And>s d. Copyfile s d \<notin> set t" and "build_script_exists w = Inr True \<Longrightarrow> t = [RunBuild]"
    by simp_all
qed

lemma strip_policy_dest:
  "strip ''/root/cache_ext/policies/cache_ext_agent.bpf.c''
     = ''/root/cache_ext/policies/cache_ext_agent.bpf.c''"
  by (simp add: strip_def is_space_def)

theorem same_file_skips_copy_and_builds_witness:
  "valid_source example_world ''/root/cache_ext/policies/cache_ext_agent.bpf.c''
     ''/root/cache_ext/policies/cache_ext_agent.bpf.c'' \<and>
   resolves example_world ''/root/cache_ext/policies/cache_ext_agent.bpf.c''
     ''/root/cache_ext/policies/cache_ext_agent.bpf.c''
     ''/root/cache_ext/policies/cache_ext_agent.bpf.c'' \<and>
   valid_source example_world ''/tmp/policy.c'' ''/tmp/policy.c'' \<and>
   resolves example_world ''/tmp/policy.c'' ''/tmp/policy.c''
     ''/root/cache_ext/policies/cache_ext_agent.bpf.c'' \<and>
   prepare_policy example_world (Some ''/root/cache_ext/policies/cache_ext_agent.bpf.c'')
     = Inr (True,
            [''build_stdout'' \<mapsto> ''built'', ''build_stderr'' \<mapsto> [],
             ''build_exit_code'' \<mapsto> str_of_int 0],
            [RunBuild]) \<and>
   prepare_policy example_world (Some ''/tmp/policy.c'')
     = Inr (True,
            [''copied_policy_from'' \<mapsto> ''/tmp/policy.c''] ++
            [''build_stdout'' \<mapsto> ''built'', ''build_stderr'' \<mapsto> [],
             ''build_exit_code'' \<mapsto> str_of_int 0],
            [Copyfile ''/tmp/policy.c'' ''/root/cache_ext/policies/cache_ext_agent.bpf.c'',
             RunBuild])"
proof -
  let ?p = "''/root/cache_ext/policies/cache_ext_agent.bpf.c''"
  let ?q = "''/tmp/policy.c''"
  have h1: "valid_source example_world ?p ?p"
    by (simp add: valid_source_def strip_policy_dest example_world_def)
  have h2: "resolves example_world ?p ?p ?p"
    by (simp add: resolves_def POLICY_DEST_def example_world_def)
  have h3: "valid_source example_world ?q ?q"
    by (simp add: valid_source_def strip_tmp_policy example_world_def)
  have h4: "resolves example_world ?q ?q ?p"
    by (simp add: resolves_def POLICY_DEST_def example_world_def)
  have h5: "?q \<noteq> ?p"
    by simp
  have h6: "copyfile example_world ?q ?p = None"
    by (simp add: example_world_def)
  have r: "rebuild example_world Map.empty [] =
      Inr (True,
           [''build_stdout'' \<mapsto> ''built'', ''build_stderr'' \<mapsto> [],
            ''build_exit_code'' \<mapsto> str_of_int 0],
           [RunBuild])"
    by (simp add: rebuild_def example_world_def)
  from same_file_skips_copy_and_builds [OF h1 h2 h3 h4 h5 h6] h1 h2 h3 h4 r show ?thesis
    by simp
qed

section \<open>Diagnostic keys\<close>

lemma staging_keys_documented: "staging_keys \<subseteq> documented_keys \<union> {''build_error''}"
  by (simp add: staging_keys_def documented_keys_def)

lemma run_keys_documented: "run_keys \<subseteq> documented_keys"
  by (simp add: run_keys_def documented_keys_def)

lemma evaluate_artifacts:
  assumes "evaluate w p = Inr (res, t)"
  shows "\<exists>ok pa tr. prepare_policy w p = Inr (ok, pa, tr) \<and>
           (artifacts res = pa \<or>
            (\<exists>ra rtr. run_filesearch_script w (results_filename w) = Inr (ra, rtr) \<and>
               artifacts res = pa ++ ra))"
proof (cases "prepare_policy w p")
  case (Inl s)
  with assms show ?thesis by (simp add: evaluate_def)
next
  case (Inr r)
  then obtain ok pa tr where pp: "prepare_policy w p = Inr (ok, pa, tr)"
    by (cases r) auto
  show ?thesis
  proof (cases ok)
    case False
    with assms pp show ?thesis by (auto simp: evaluate_def)
  next
    case True
    with assms pp obtain ra rtr where
      rr: "mkdir_results w = None"
          "run_filesearch_script w (results_filename w) = Inr (ra, rtr)"
      by (cases "mkdir_results w"; cases "run_filesearch_script w (results_filename w)")
         (auto simp: evaluate_def)
    from pp True have pp': "prepare_policy w p = Inr (True, pa, tr)" by simp
    from assms have "artifacts res = pa ++ ra"
      by (simp add: evaluate_reaches_aggregation [OF pp' rr]
          split: sum.splits if_splits) auto
    with pp rr show ?thesis by blast
  qed
qed

lemma missing_build_script_example:
  "prepare_policy (example_world\<lparr>build_script_exists := Inr False\<rparr>) (Some ''/tmp/policy.c'') =
     Inr (False,
          [''copied_policy_from'' \<mapsto> ''/tmp/policy.c'',
           ''build_error'' \<mapsto> ''build_policies.sh not found at ''
              @ BUILD_SCRIPT (example_world\<lparr>build_script_exists := Inr False\<rparr>)],
          [Copyfile ''/tmp/policy.c''
             (POLICY_DEST (example_world\<lparr>build_script_exists := Inr False\<rparr>))])"
  by (simp add: prepare_policy_def not_a_file_def copy_and_rebuild_def strip_tmp_policy
      rebuild_def example_world_def POLICY_DEST_def Let_def)

text \<open>
  Claim C8 as stated fails: with a valid candidate and no build script, the diagnostics
  hold the key \<open>build_error\<close>, which is not among the ten keys of the claim.
\<close>

theorem undocumented_build_error_key:
  "\<exists>res t. evaluate (example_world\<lparr>build_script_exists := Inr False\<rparr>) (Some ''/tmp/policy.c'')
       = Inr (res, t) \<and>
     \<not> dom (artifacts res) \<subseteq> documented_keys"
  by (simp add: evaluate_staging_failed [OF missing_build_script_example] documented_keys_def)

text \<open>
  Claim C8, amended. Every diagnostic key that \<open>evaluate\<close> returns is one of the ten
  keys of the claim or \<open>build_error\<close>; the keys of the staging stage and those of the
  run stage are disjoint, so merging the run diagnostics over the staging diagnostics
  overwrites nothing.
\<close>

theorem diagnostic_keys_with_build_error:
  "(evaluate w p = Inr (res, t) \<longrightarrow>
      dom (artifacts res) \<subseteq> documented_keys \<union> {''build_error''}) \<and>
   (prepare_policy w p = Inr (ok, pa, tr) \<and> run_filesearch_script w n = Inr (ra, rtr) \<longrightarrow>
      dom pa \<subseteq> staging_keys \<and> dom ra \<subseteq> run_keys \<and> dom pa \<inter> dom ra = {} \<and>
      (\<forall>k \<in> dom pa. (pa ++ ra) k = pa k))"
proof (intro conjI impI)
  assume "evaluate w p = Inr (res, t)"
  from evaluate_artifacts [OF this] obtain ok' pa' tr' where
    pp: "prepare_policy w p = Inr (ok', pa', tr')"
    and alt: "artifacts res = pa' \<or>
      (\<exists>ra rtr. run_filesearch_script w (results_filename w) = Inr (ra, rtr) \<and>
         artifacts res = pa' ++ ra)"
    by blast
  from prepare_policy_keys [OF pp] have "dom pa' \<subseteq> staging_keys" by simp
  with staging_keys_documented have
    k: "dom pa' \<subseteq> documented_keys \<union> {''build_error''}" by blast
  from alt show "dom (artifacts res) \<subseteq> documented_keys \<union> {''build_error''}"
  proof
    assume "artifacts res = pa'"
    with k show ?thesis by simp
  next
    assume "\<exists>ra rtr. run_filesearch_script w (results_filename w) = Inr (ra, rtr) \<and>
        artifacts res = pa' ++ ra"
    then obtain ra' rtr' where
      rr: "run_filesearch_script w (results_filename w) = Inr (ra', rtr')"
      and a: "artifacts res = pa' ++ ra'" by blast
    from run_filesearch_script_keys [OF rr] run_keys_documented
    have "dom ra' \<subseteq> documented_keys" by blast
    with k a show ?thesis by auto
  qed
next
  assume h: "prepare_policy w p = Inr (ok, pa, tr) \<and> run_filesearch_script w n = Inr (ra, rtr)"
  then have pk: "dom pa \<subseteq> staging_keys" and rk: "dom ra \<subseteq> run_keys"
    using prepare_policy_keys [of w p ok pa tr] run_filesearch_script_keys [of w n ra rtr]
    by simp_all
  show "dom pa \<subseteq> staging_keys" by (rule pk)
  show "dom ra \<subseteq> run_keys" by (rule rk)
  from pk rk staging_run_disjoint show d: "dom pa \<inter> dom ra = {}" by blast
  show "\<forall>k \<in> dom pa. (pa ++ ra) k = pa k"
  proof
    fix k assume "k \<in> dom pa"
    with d have "k \<notin> dom ra" by blast
    then show "(pa ++ ra) k = pa k" by (simp add: map_add_dom_app_simps)
  qed
qed

theorem diagnostic_keys_with_build_error_witness:
  "\<exists>res t pa tr ra rtr.
     evaluate (example_world\<lparr>build_script_exists := Inr False\<rparr>) (Some ''/tmp/policy.c'')
       = Inr (res, t) \<and>
     prepare_policy (example_world\<lparr>build_script_exists := Inr False\<rparr>) (Some ''/tmp/policy.c'')
       = Inr (False, pa, tr) \<and>
     run_filesearch_script (example_world\<lparr>build_script_exists := Inr False\<rparr>) ''r.json''
       = Inr (ra, rtr) \<and>
     ''build_error'' \<in> dom (artifacts res) \<and>
     dom (artifacts res) \<subseteq> documented_keys \<union> {''build_error''} \<and>
     dom pa \<inter> dom ra = {}"
proof -
  let ?w = "example_world\<lparr>build_script_exists := Inr False\<rparr>"
  let ?p = "Some ''/tmp/policy.c''"
  obtain pa tr where pp: "prepare_policy ?w ?p = Inr (False, pa, tr)"
    and b: "''build_error'' \<in> dom pa"
    using missing_build_script_example by simp
  have ev: "evaluate ?w ?p =
      Inr (\<lparr>metrics = initial_metrics\<lparr>combined_score := NInf\<rparr>, artifacts = pa\<rparr>, tr)"
    by (rule evaluate_staging_failed [OF pp])
  obtain ra rtr where rr: "run_filesearch_script ?w ''r.json'' = Inr (ra, rtr)"
    by (simp add: run_filesearch_script_def example_world_def)
  from diagnostic_keys_with_build_error
    [of ?w ?p "\<lparr>metrics = initial_metrics\<lparr>combined_score := NInf\<rparr>, artifacts = pa\<rparr>" tr
        False pa tr "''r.json''" ra rtr]
    ev pp rr b
  show ?thesis by auto
qed

section \<open>Runtimes given as strings\<close>

lemma loop_body_run_record:
  "loop_body (run_record ''cache_ext_test'' v) =
     (case py_float v of
        Inr x \<Rightarrow> Inr (Some x)
      | Inl e \<Rightarrow> if e = TypeError \<or> e = ValueError then Inr None else Inl e)"
  by (simp add: loop_body_def run_record_def py_get_def)

lemma load_loop_same_body:
  "loop_body a = loop_body b \<Longrightarrow>
   load_loop (pre @ a # post) acc = load_loop (pre @ b # post) acc"
  by (induction pre arbitrary: acc) (simp_all split: sum.splits option.splits)

lemma prepare_policy_results_at [simp]:
  "prepare_policy (w\<lparr>results_at := g\<rparr>) p = prepare_policy w p"
  by (simp add: prepare_policy_def not_a_file_def copy_and_rebuild_def rebuild_def
      POLICY_DEST_def BUILD_SCRIPT_def
      cong: option.case_cong sum.case_cong if_cong subprocess.case_cong)

lemma run_filesearch_script_results_at [simp]:
  "run_filesearch_script (w\<lparr>results_at := g\<rparr>) n = run_filesearch_script w n"
  by (simp add: run_filesearch_script_def FILESEARCH_DIR_def
      cong: sum.case_cong if_cong subprocess.case_cong)

lemma evaluate_same_runtimes:
  assumes "load_cache_ext_runtimes f = load_cache_ext_runtimes g"
  shows "evaluate (w\<lparr>results_at := \<lambda>path. f\<rparr>) p = evaluate (w\<lparr>results_at := \<lambda>path. g\<rparr>) p"
  by (simp add: evaluate_def results_filename_def assms
      cong: sum.case_cong option.case_cong if_cong prod.case_cong)

text \<open>
  Claim C10. In a qualifying record, a \<open>runtime_sec\<close> string that \<^verbatim>\<open>float\<close> parses
  to \<open>x\<close> is kept, and the loop, hence the average, the count and the combined score of
  \<open>evaluate\<close>, is the same as with the float \<open>x\<close> in its place; the witness is the
  string \<^verbatim>\<open>"2.5"\<close>.
\<close>

theorem numeric_string_runtime_counts:
  assumes "float_of_string s = Some x"
  shows "loop_body (run_record ''cache_ext_test'' (JStr s)) = Inr (Some x) \<and>
         loop_body (run_record ''cache_ext_test'' (JFloat x)) = Inr (Some x) \<and>
         load_loop (pre @ run_record ''cache_ext_test'' (JStr s) # post) acc
           = load_loop (pre @ run_record ''cache_ext_test'' (JFloat x) # post) acc \<and>
         evaluate
           (w\<lparr>results_at :=
               \<lambda>path. Holds (JList (pre @ run_record ''cache_ext_test'' (JStr s) # post))\<rparr>) p
           = evaluate
           (w\<lparr>results_at :=
               \<lambda>path. Holds (JList (pre @ run_record ''cache_ext_test'' (JFloat x) # post))\<rparr>) p"
proof -
  have a: "loop_body (run_record ''cache_ext_test'' (JStr s)) = Inr (Some x)"
    and b: "loop_body (run_record ''cache_ext_test'' (JFloat x)) = Inr (Some x)"
    using assms by (simp_all add: loop_body_run_record)
  then have c: "\<And>acc. load_loop (pre @ run_record ''cache_ext_test'' (JStr s) # post) acc
      = load_loop (pre @ run_record ''cache_ext_test'' (JFloat x) # post) acc"
    by (simp add: load_loop_same_body)
  have "load_cache_ext_runtimes
          (Holds (JList (pre @ run_record ''cache_ext_test'' (JStr s) # post)))
        = load_cache_ext_runtimes
          (Holds (JList (pre @ run_record ''cache_ext_test'' (JFloat x) # post)))"
    by (simp add: load_cache_ext_runtimes_def c)
  from evaluate_same_runtimes [OF this] a b c show ?thesis by simp
qed

theorem numeric_string_runtime_counts_witness:
  "float_of_string ''2.5'' = Some (Fin (5 / 2)) \<and>
   load_loop [run_record ''cache_ext_test'' (JStr ''2.5'')] [] = Inr [Fin (5 / 2)] \<and>
   (\<exists>res t. evaluate
       (example_world\<lparr>results_at :=
          \<lambda>path. Holds (JList [run_record ''cache_ext_test'' (JStr ''2.5'')])\<rparr>) None
       = Inr (res, t) \<and>
      metrics res = \<lparr>cache_ext_avg_runtime_sec = Fin (5 / 2), cache_ext_run_count = Fin 1,
                     combined_score = Fin (- (5 / 2))\<rparr>)"
proof -
  let ?w = "\<lambda>v. example_world\<lparr>results_at :=
      \<lambda>path. Holds (JList [run_record ''cache_ext_test'' v])\<rparr>"
  have h1: "prepare_policy (?w (JFloat (Fin (5 / 2)))) None = Inr (True, Map.empty, [])"
    by (simp add: prepare_policy_def)
  have h2: "mkdir_results (?w (JFloat (Fin (5 / 2)))) = None"
    by (simp add: example_world_def)
  obtain ra rtr where h3: "run_filesearch_script (?w (JFloat (Fin (5 / 2))))
      (results_filename (?w (JFloat (Fin (5 / 2))))) = Inr (ra, rtr)"
    by (simp add: run_filesearch_script_def example_world_def)
  have m: "mean [Fin (5 / 2)] = Inr (Fin (5 / 2))"
    by (simp add: mean_def round_double_eval)
  have e: "evaluate (?w (JFloat (Fin (5 / 2)))) None =
      Inr (\<lparr>metrics = \<lparr>cache_ext_avg_runtime_sec = Fin (5 / 2), cache_ext_run_count = Fin 1,
                        combined_score = Fin (- (5 / 2))\<rparr>,
             artifacts = ra\<rparr>, Mkdir # rtr)"
    by (simp add: evaluate_reaches_aggregation [OF h1 h2 h3] load_cache_ext_runtimes_def
        loop_body_run_record m)
  from numeric_string_runtime_counts
    [OF float_of_string_example, of "[]" "[]" "[]" example_world None] e
  show ?thesis
    by (simp add: float_of_string_example)
qed

end
